theory Spec2Isabelle
  imports Complex_Main "HOL-Library.Sublist" "HOL-Library.Log_Nat"
begin

section \<open>The conformance harnesses of the OpenTrust Protocol specification\<close>

text \<open>
  The repository holds two harnesses that probe a candidate SDK:
  \<^item> \<^verbatim>\<open>tools/test-runner/validate_vectors.py\<close>, class \<^verbatim>\<open>TestVectorValidator\<close>; its
    functions carry the prefix \<open>tvv_\<close> below;
  \<^item> \<^verbatim>\<open>tools/validator/check_conformance.py\<close>, class \<^verbatim>\<open>ConformanceValidator\<close>; its
    functions carry the prefix \<open>cv_\<close>.

  Both are modelled function by function. Python exceptions are values of a sum type
  (\<open>Inl\<close> the raised exception) and the dictionaries the harness mutates are records
  passed in and returned. validate\_vectors.py stores every verdict in a list of details,
  which is modelled, and its console output, which repeats them, is not;
  check\_conformance.py reports verdicts on the console only, so its lines are modelled.
  The numbers a judgment holds are Python floats: they are modelled as IEEE 754
  double-precision values, with the rounding of every literal and of every addition
  written out. The score, a percentage of two small counters, is kept as a real number.
\<close>

subsection \<open>Exceptions\<close>

text \<open>
  The classes are those the handlers of the two files tell apart
  (\<^verbatim>\<open>except (AttributeError, TypeError)\<close>) or that the harness raises itself; every other
  subclass of \<^verbatim>\<open>Exception\<close> is \<open>OtherException\<close>. All of them are instances of
  \<^verbatim>\<open>Exception\<close>, so \<^verbatim>\<open>except Exception\<close> catches every value of this type.
  \<open>str_of e\<close> is Python's \<^verbatim>\<open>str(e)\<close>.
\<close>

datatype exn_class =
  AttributeError | TypeError | KeyError | UnboundLocalError | JSONDecodeError | OtherException

datatype exn = Exn (cls: exn_class) (str_of: string)

subsection \<open>Python floats\<close>

text \<open>
  A finite double is a real number with at most 53 significant bits that is a multiple
  of \<open>2 ^ -1074\<close>. \<open>round_double x\<close> is the double nearest to \<open>x\<close>, a tie going to the
  even significand, as IEEE 754 rounds by default: \<open>n\<close> is \<open>\<bar>x\<bar>\<close> in units of the
  smallest subnormal, and \<open>u\<close> is the distance between neighbouring doubles at \<open>x\<close> in
  the same units. Overflow is not modelled: a number beyond the largest double is
  rounded like any other, to a number that is still far above 1. Nor are the infinities
  and NaN: the harness adds only floats that it has found between 0 and 1, and a float
  that is infinite or NaN fails the test \<^verbatim>\<open>0 <= x <= 1\<close> as every float outside that
  interval does.
\<close>

definition round_half_even :: "real \<Rightarrow> int" where
  "round_half_even x =
     (let f = \<lfloor>x\<rfloor>; d = x - of_int f
      in if d < 1 / 2 then f else if 1 / 2 < d then f + 1 else if even f then f else f + 1)"

definition subnormal_bits :: nat where
  "subnormal_bits = 1074"

definition round_double :: "real \<Rightarrow> real" where
  "round_double x =
     (let n = \<bar>x\<bar> * 2 ^ subnormal_bits;
          u = 2 ^ nat (bitlen \<lfloor>n\<rfloor> - 53)
      in sgn x * of_int (round_half_even (n / u)) * u / 2 ^ subnormal_bits)"

text \<open>
  The type of Python floats: the values of \<open>round_double\<close>. \<open>valof a\<close> is the real number
  that the float \<open>a\<close> holds; \<open>py_float d\<close> is the float that the literal or JSON number
  \<open>d\<close> denotes; \<open>float_add\<close> is Python's \<^verbatim>\<open>+\<close> on floats. Floats are compared, with each
  other and with the integers 0 and 1, by the numbers they hold. An attribute that holds
  the Python integer 0 or 1 behaves in every expression of the harness as the float 0.0
  or 1.0 does.
\<close>

typedef double = "range round_double"
  morphisms valof Abs_double
  by blast

definition py_float :: "real \<Rightarrow> double" where
  "py_float x = Abs_double (round_double x)"

definition float_add :: "double \<Rightarrow> double \<Rightarrow> double" where
  "float_add a b = py_float (valof a + valof b)"

subsection \<open>The candidate SDK\<close>

text \<open>
  An object returned by the candidate is known to the harness only through the reads it
  performs: the attributes \<^verbatim>\<open>T\<close>, \<^verbatim>\<open>I\<close>, \<^verbatim>\<open>F\<close> (a read that raises, or whose value
  cannot be compared with a number, is \<open>Inl\<close>; any other is a float), \<^verbatim>\<open>len(obj.provenance_chain)\<close> and
  \<^verbatim>\<open>obj.provenance_chain.append(entry)\<close>.
\<close>

type_synonym attestation = "(string \<times> string) list"

record py_object =
  attr_T :: "exn + double"
  attr_I :: "exn + double"
  attr_F :: "exn + double"
  provenance_len :: "exn + nat"
  provenance_append :: "attestation \<Rightarrow> exn + unit"

record judgment_input =
  inp_T :: double
  inp_I :: double
  inp_F :: double
  inp_provenance_chain :: "attestation list"

text \<open>
  The four callables the harnesses reach for (\<^verbatim>\<open>sdk_module.NeutrosophicJudgment\<close>, and the
  fusion operators, bound as \<^verbatim>\<open>sdk_module.fuse.f\<close> in validate_vectors.py and as
  \<^verbatim>\<open>sdk_module.f\<close> in check_conformance.py). A missing attribute is the call raising
  \<open>AttributeError\<close>.
\<close>

record sdk_module =
  NeutrosophicJudgment :: "judgment_input \<Rightarrow> exn + py_object"
  conflict_aware_weighted_average :: "py_object list \<Rightarrow> double list \<Rightarrow> exn + py_object"
  optimistic_fusion :: "py_object list \<Rightarrow> exn + py_object"
  pessimistic_fusion :: "py_object list \<Rightarrow> exn + py_object"

subsection \<open>The validity predicate\<close>

text \<open>
  The expression
  \<^verbatim>\<open>0 <= j.T <= 1 and 0 <= j.I <= 1 and 0 <= j.F <= 1 and j.T + j.I + j.F <= 1.0\<close>,
  read left to right with Python's short-circuit \<^verbatim>\<open>and\<close>: a chained comparison reads its
  middle operand once, and the sum reads the three attributes again. The sum is
  \<^verbatim>\<open>(j.T + j.I) + j.F\<close>, two additions of floats, compared with the float \<^verbatim>\<open>1.0\<close>.
\<close>

definition validity_condition :: "py_object \<Rightarrow> exn + bool" where
  "validity_condition judgment =
     (case attr_T judgment of Inl e \<Rightarrow> Inl e | Inr t \<Rightarrow>
        if \<not> (0 \<le> valof t \<and> valof t \<le> 1) then Inr False else
     (case attr_I judgment of Inl e \<Rightarrow> Inl e | Inr i \<Rightarrow>
        if \<not> (0 \<le> valof i \<and> valof i \<le> 1) then Inr False else
     (case attr_F judgment of Inl e \<Rightarrow> Inl e | Inr f \<Rightarrow>
        if \<not> (0 \<le> valof f \<and> valof f \<le> 1) then Inr False else
     (case attr_T judgment of Inl e \<Rightarrow> Inl e | Inr t2 \<Rightarrow>
     (case attr_I judgment of Inl e \<Rightarrow> Inl e | Inr i2 \<Rightarrow>
     (case attr_F judgment of Inl e \<Rightarrow> Inl e | Inr f2 \<Rightarrow>
        Inr (valof (float_add (float_add t2 i2) f2) \<le> valof (py_float 1.0))))))))"

text \<open>
  \<^verbatim>\<open>TestVectorValidator._is_valid_judgment\<close>: the expression under
  \<^verbatim>\<open>try: ... except: return False\<close>.
\<close>

definition is_valid_judgment :: "py_object \<Rightarrow> exn + bool" where
  "is_valid_judgment judgment =
     (case validity_condition judgment of Inl e \<Rightarrow> Inr False | Inr b \<Rightarrow> Inr b)"

text \<open>
  The value of the expression when the three attributes hold the floats \<open>t\<close>, \<open>i\<close> and
  \<open>f\<close>.
\<close>

definition components_valid :: "double \<Rightarrow> double \<Rightarrow> double \<Rightarrow> bool" where
  "components_valid t i f \<longleftrightarrow>
     0 \<le> valof t \<and> valof t \<le> 1 \<and> 0 \<le> valof i \<and> valof i \<le> 1 \<and> 0 \<le> valof f \<and> valof f \<le> 1
     \<and> valof (float_add (float_add t i) f) \<le> valof (py_float 1.0)"

text \<open>
  Example objects: one that holds three floats and keeps its provenance chain in a tuple
  of one element; the same, written with the decimal literals of its floats; and one
  whose attribute \<^verbatim>\<open>I\<close> raises.
\<close>

definition float_object :: "double \<Rightarrow> double \<Rightarrow> double \<Rightarrow> py_object" where
  "float_object t i f =
     \<lparr>attr_T = Inr t, attr_I = Inr i, attr_F = Inr f, provenance_len = Inr 1,
      provenance_append = (\<lambda>entry. Inl (Exn AttributeError ''tuple has no attribute append''))\<rparr>"

definition plain_object :: "real \<Rightarrow> real \<Rightarrow> real \<Rightarrow> py_object" where
  "plain_object t i f = float_object (py_float t) (py_float i) (py_float f)"

definition broken_object :: py_object where
  "broken_object =
     (plain_object 0.5 0 0)\<lparr>attr_I := Inl (Exn AttributeError ''no attribute I'')\<rparr>"

subsection \<open>Fixtures\<close>

text \<open>
  One entry of \<^verbatim>\<open>judgments.json\<close>, typed as the fixture schema gives it; the key
  \<^verbatim>\<open>expected_error\<close> is optional.
\<close>

record test_case =
  name :: string
  input :: judgment_input
  expected_valid :: bool
  expected_error :: "string option"

typedecl fusion_vector

text \<open>
  A fixture file as the loader meets it: absent; present but rejected by \<^verbatim>\<open>json.load\<close>
  (with the decoder's message); parsed to something that is not a JSON object, so that
  subscripting it with a string raises \<open>TypeError\<close>; or parsed to an object, a map from
  keys to values.
\<close>

datatype 'v json_file =
  Absent | Malformed string | Not_an_object string | Object "string \<rightharpoonup> 'v"

record fixtures =
  judgments_json :: "test_case list json_file"
  fusion_tests_json :: "fusion_vector list json_file"

text \<open>The dictionary the loaders build: each key is present only if its file exists.\<close>

record test_vectors =
  tv_judgments :: "test_case list option"
  tv_fusion :: "fusion_vector list option"

definition key_error :: "string \<Rightarrow> exn" where
  "key_error k = Exn KeyError ([CHR 0x27] @ k @ [CHR 0x27])"

text \<open>
  One block \<^verbatim>\<open>if file.exists(): data = json.load(f); ... data['test_vectors']\<close>: the
  value to store, if any.
\<close>

definition read_test_vectors :: "'v json_file \<Rightarrow> exn + 'v option" where
  "read_test_vectors file =
     (case file of
        Absent \<Rightarrow> Inr None
      | Malformed m \<Rightarrow> Inl (Exn JSONDecodeError m)
      | Not_an_object m \<Rightarrow> Inl (Exn TypeError m)
      | Object data \<Rightarrow>
          (case data ''test_vectors'' of
             None \<Rightarrow> Inl (key_error ''test_vectors'')
           | Some vs \<Rightarrow> Inr (Some vs)))"

text \<open>
  \<^verbatim>\<open>TestVectorValidator.load_test_vectors\<close> and
  \<^verbatim>\<open>ConformanceValidator._load_test_vectors\<close> are the same two blocks in the same order;
  they differ only in the name of the first key of the dictionary they return
  (\<^verbatim>\<open>'judgment_creation'\<close> and \<^verbatim>\<open>'judgments'\<close>).
\<close>

definition load_test_vectors :: "fixtures \<Rightarrow> exn + test_vectors" where
  "load_test_vectors fx =
     (case read_test_vectors (judgments_json fx) of
        Inl e \<Rightarrow> Inl e
      | Inr js \<Rightarrow>
          (case read_test_vectors (fusion_tests_json fx) of
             Inl e \<Rightarrow> Inl e
           | Inr fs \<Rightarrow> Inr \<lparr>tv_judgments = js, tv_fusion = fs\<rparr>))"

subsection \<open>Results of validate\_vectors.py\<close>

datatype verdict = PASS | WARN | FAIL

record detail =
  test :: string
  status :: verdict
  message :: string

record category =
  passed :: nat
  total :: nat
  details :: "detail list"

record results =
  judgment_creation :: category
  fusion_operators :: category
  edge_cases :: category

definition empty_category :: category where
  "empty_category = \<lparr>passed = 0, total = 0, details = []\<rparr>"

text \<open>\<^verbatim>\<open>self.results\<close> as \<^verbatim>\<open>__init__\<close> leaves it.\<close>

definition initial_results :: results where
  "initial_results =
     \<lparr>judgment_creation = empty_category, fusion_operators = empty_category,
      edge_cases = empty_category\<rparr>"

definition incr_total :: "category \<Rightarrow> category" where
  "incr_total c = c\<lparr>total := total c + 1\<rparr>"

definition incr_passed :: "category \<Rightarrow> category" where
  "incr_passed c = c\<lparr>passed := passed c + 1\<rparr>"

definition append_detail :: "string \<Rightarrow> verdict \<Rightarrow> string \<Rightarrow> category \<Rightarrow> category" where
  "append_detail t s m c = c\<lparr>details := details c @ [\<lparr>test = t, status = s, message = m\<rparr>]\<rparr>"

subsection \<open>validate\_vectors.py: judgment creation\<close>

text \<open>
  The body of the loop of \<^verbatim>\<open>TestVectorValidator.validate_judgment_creation\<close>, on
  \<^verbatim>\<open>self.results['judgment_creation']\<close>. \<^verbatim>\<open>expected_error and expected_error in error_msg\<close>
  is non-emptiness and Python's substring test on strings.
\<close>

definition tvv_judgment_creation_case :: "sdk_module \<Rightarrow> category \<Rightarrow> test_case \<Rightarrow> category" where
  "tvv_judgment_creation_case sdk c0 test_case =
     (let test_name = name test_case; c = incr_total c0 in
      case NeutrosophicJudgment sdk (input test_case) of
        Inr judgment \<Rightarrow>
          if expected_valid test_case
          then append_detail test_name PASS ''Valid judgment created successfully''
                 (incr_passed c)
          else append_detail test_name FAIL ''Should have failed but didn't'' c
      | Inl e \<Rightarrow>
          (let error_msg = str_of e in
           if \<not> expected_valid test_case
           then
             (let expected = (case expected_error test_case of None \<Rightarrow> [] | Some s \<Rightarrow> s) in
              if expected \<noteq> [] \<and> sublist expected error_msg
              then append_detail test_name PASS (''Failed as expected: '' @ error_msg)
                     (incr_passed c)
              else incr_passed
                     (append_detail test_name WARN
                        (''Failed as expected but wrong error: '' @ error_msg) c))
           else append_detail test_name FAIL (''Unexpected error: '' @ error_msg) c))"

definition tvv_validate_judgment_creation ::
  "sdk_module \<Rightarrow> test_case list \<Rightarrow> results \<Rightarrow> results" where
  "tvv_validate_judgment_creation sdk vectors r =
     r\<lparr>judgment_creation := foldl (tvv_judgment_creation_case sdk) (judgment_creation r) vectors\<rparr>"

subsection \<open>validate\_vectors.py: fusion operators\<close>

text \<open>
  The keyword arguments of a constructor call of the harness, from the float literals
  \<open>t\<close>, \<open>i\<close>, \<open>f\<close> and the \<^verbatim>\<open>source_id\<close> written there.
\<close>

definition canonical_input :: "real \<Rightarrow> real \<Rightarrow> real \<Rightarrow> string \<Rightarrow> judgment_input" where
  "canonical_input t i f source =
     \<lparr>inp_T = py_float t, inp_I = py_float i, inp_F = py_float f,
      inp_provenance_chain =
        [[(''source_id'', source), (''timestamp'', ''2025-09-20T20:30:00Z'')]]\<rparr>"

text \<open>
  One of the three blocks of \<^verbatim>\<open>validate_fusion_operators\<close>; they differ in the name of
  the test and in the operator called. \<open>call\<close> is the outcome of the operator.
\<close>

definition tvv_fusion_probe :: "string \<Rightarrow> exn + py_object \<Rightarrow> category \<Rightarrow> category" where
  "tvv_fusion_probe test_name call c0 =
     (let c = incr_total c0 in
      case (case call of Inl e \<Rightarrow> Inl e | Inr result \<Rightarrow> is_valid_judgment result) of
        Inr valid \<Rightarrow>
          if valid then append_detail test_name PASS ''Valid fusion result'' (incr_passed c)
          else append_detail test_name FAIL ''Invalid fusion result'' c
      | Inl e \<Rightarrow> append_detail test_name FAIL (''Error: '' @ str_of e) c)"

text \<open>
  \<^verbatim>\<open>TestVectorValidator.validate_fusion_operators\<close>. The two judgments are built before
  the first \<^verbatim>\<open>try\<close>, so an exception of the constructor leaves the function.
\<close>

definition tvv_validate_fusion_operators :: "sdk_module \<Rightarrow> results \<Rightarrow> exn + results" where
  "tvv_validate_fusion_operators sdk r =
     (case NeutrosophicJudgment sdk (canonical_input 0.8 0.2 0.0 ''test1'') of
        Inl e \<Rightarrow> Inl e
      | Inr j1 \<Rightarrow>
     (case NeutrosophicJudgment sdk (canonical_input 0.6 0.3 0.1 ''test2'') of
        Inl e \<Rightarrow> Inl e
      | Inr j2 \<Rightarrow>
          (let judgments = [j1, j2] in
           Inr (r\<lparr>fusion_operators :=
                   tvv_fusion_probe ''pessimistic_fusion'' (pessimistic_fusion sdk judgments)
                  (tvv_fusion_probe ''optimistic_fusion'' (optimistic_fusion sdk judgments)
                  (tvv_fusion_probe ''conflict_aware_weighted_average''
                     (conflict_aware_weighted_average sdk judgments
                        [py_float 0.6, py_float 0.4])
                     (fusion_operators r)))\<rparr>))))"

subsection \<open>validate\_vectors.py: edge cases\<close>

text \<open>
  The \<^verbatim>\<open>try\<close> body of the single-judgment test up to the condition
  \<^verbatim>\<open>self._is_valid_judgment(result) and result.T == 0.8\<close>.
\<close>

definition single_judgment_condition :: "sdk_module \<Rightarrow> exn + bool" where
  "single_judgment_condition sdk =
     (case NeutrosophicJudgment sdk (canonical_input 0.8 0.2 0.0 ''test'') of
        Inl e \<Rightarrow> Inl e
      | Inr judgment \<Rightarrow>
     (case conflict_aware_weighted_average sdk [judgment] [py_float 1.0] of
        Inl e \<Rightarrow> Inl e
      | Inr result \<Rightarrow>
     (case is_valid_judgment result of
        Inl e \<Rightarrow> Inl e
      | Inr valid \<Rightarrow>
          if \<not> valid then Inr False
          else (case attr_T result of Inl e \<Rightarrow> Inl e | Inr t \<Rightarrow> Inr (t = py_float 0.8)))))"

definition tvv_single_judgment_probe :: "sdk_module \<Rightarrow> category \<Rightarrow> category" where
  "tvv_single_judgment_probe sdk c0 =
     (let c = incr_total c0 in
      case single_judgment_condition sdk of
        Inr ok \<Rightarrow>
          if ok
          then append_detail ''single_judgment_fusion'' PASS
                 ''Single judgment fusion works correctly'' (incr_passed c)
          else append_detail ''single_judgment_fusion'' FAIL ''Single judgment fusion failed'' c
      | Inl e \<Rightarrow> append_detail ''single_judgment_fusion'' FAIL (''Error: '' @ str_of e) c)"

text \<open>The \<^verbatim>\<open>try\<close> body of the zero-weights test up to its condition.\<close>

definition zero_weights_condition :: "sdk_module \<Rightarrow> exn + bool" where
  "zero_weights_condition sdk =
     (case NeutrosophicJudgment sdk (canonical_input 0.9 0.1 0.9 ''test1'') of
        Inl e \<Rightarrow> Inl e
      | Inr j1 \<Rightarrow>
     (case NeutrosophicJudgment sdk (canonical_input 0.8 0.2 0.8 ''test2'') of
        Inl e \<Rightarrow> Inl e
      | Inr j2 \<Rightarrow>
     (case conflict_aware_weighted_average sdk [j1, j2] [py_float 0.0, py_float 0.0] of
        Inl e \<Rightarrow> Inl e
      | Inr result \<Rightarrow> is_valid_judgment result)))"

definition tvv_zero_weights_probe :: "sdk_module \<Rightarrow> category \<Rightarrow> category" where
  "tvv_zero_weights_probe sdk c0 =
     (let c = incr_total c0 in
      case zero_weights_condition sdk of
        Inr ok \<Rightarrow>
          if ok
          then append_detail ''zero_weights_fallback'' PASS
                 ''Zero weights fallback works correctly'' (incr_passed c)
          else append_detail ''zero_weights_fallback'' FAIL ''Zero weights fallback failed'' c
      | Inl e \<Rightarrow> append_detail ''zero_weights_fallback'' FAIL (''Error: '' @ str_of e) c)"

definition tvv_validate_edge_cases :: "sdk_module \<Rightarrow> results \<Rightarrow> results" where
  "tvv_validate_edge_cases sdk r =
     r\<lparr>edge_cases := tvv_zero_weights_probe sdk (tvv_single_judgment_probe sdk (edge_cases r))\<rparr>"

subsection \<open>validate\_vectors.py: the run and its exit code\<close>

record overall =
  overall_passed :: nat
  overall_total :: nat
  score :: real

text \<open>
  How a run ends: an exception nobody catches (the interpreter prints a traceback and
  exits with status 1), the candidate module failing to load (\<^verbatim>\<open>{"error": str(e)}\<close>), or
  the report.
\<close>

datatype 'r run_outcome = Aborted exn | Load_failed string | Completed 'r

definition compute_score :: "nat \<Rightarrow> nat \<Rightarrow> real" where
  "compute_score total_passed total_tests =
     (if total_tests > 0 then real total_passed / real total_tests * 100 else 0)"

text \<open>
  \<^verbatim>\<open>TestVectorValidator.run_validation\<close>; \<open>sdk_load\<close> is the outcome of importing the
  candidate. The second component is \<^verbatim>\<open>self.results\<close> when the function is left.
\<close>

definition tvv_run_validation ::
  "fixtures \<Rightarrow> exn + sdk_module \<Rightarrow> overall run_outcome \<times> results" where
  "tvv_run_validation fx sdk_load =
     (case sdk_load of
        Inl e \<Rightarrow> (Load_failed (str_of e), initial_results)
      | Inr sdk \<Rightarrow>
     (case load_test_vectors fx of
        Inl e \<Rightarrow> (Aborted e, initial_results)
      | Inr tv \<Rightarrow>
          (let r1 = (case tv_judgments tv of
                       None \<Rightarrow> initial_results
                     | Some vectors \<Rightarrow> tvv_validate_judgment_creation sdk vectors initial_results)
           in case tvv_validate_fusion_operators sdk r1 of
                Inl e \<Rightarrow> (Aborted e, r1)
              | Inr r2 \<Rightarrow>
                  (let r3 = tvv_validate_edge_cases sdk r2;
                       total_passed = passed (judgment_creation r3) + passed (fusion_operators r3)
                                      + passed (edge_cases r3);
                       total_tests = total (judgment_creation r3) + total (fusion_operators r3)
                                     + total (edge_cases r3)
                   in (Completed \<lparr>overall_passed = total_passed, overall_total = total_tests,
                                   score = compute_score total_passed total_tests\<rparr>, r3)))))"

text \<open>The process exit status of \<^verbatim>\<open>main\<close>.\<close>

definition exit_code :: "overall run_outcome \<Rightarrow> int" where
  "exit_code outcome =
     (case outcome of
        Aborted e \<Rightarrow> 1
      | Load_failed m \<Rightarrow> 1
      | Completed ov \<Rightarrow> if score ov \<ge> 90 then 0 else if score ov \<ge> 70 then 1 else 2)"

definition tvv_main :: "fixtures \<Rightarrow> exn + sdk_module \<Rightarrow> int" where
  "tvv_main fx sdk_load = exit_code (fst (tvv_run_validation fx sdk_load))"

subsection \<open>check\_conformance.py: counters and console\<close>

text \<open>
  The functions of \<^verbatim>\<open>ConformanceValidator\<close> keep two local counters and report each test
  on the console only. A printed line that starts with a check mark, a warning sign or a
  cross is recorded as the verdict \<open>PASS\<close>, \<open>WARN\<close> or \<open>FAIL\<close> with the text that
  follows the glyph.
\<close>

record tally =
  cv_passed :: nat
  cv_total :: nat
  printed :: "(verdict \<times> string) list"

definition empty_tally :: tally where
  "empty_tally = \<lparr>cv_passed = 0, cv_total = 0, printed = []\<rparr>"

definition print_line :: "verdict \<Rightarrow> string \<Rightarrow> tally \<Rightarrow> tally" where
  "print_line v txt st = st\<lparr>printed := printed st @ [(v, txt)]\<rparr>"

definition add_passed :: "nat \<Rightarrow> tally \<Rightarrow> tally" where
  "add_passed n st = st\<lparr>cv_passed := cv_passed st + n\<rparr>"

definition add_total :: "nat \<Rightarrow> tally \<Rightarrow> tally" where
  "add_total n st = st\<lparr>cv_total := cv_total st + n\<rparr>"

subsection \<open>check\_conformance.py: judgment creation\<close>

text \<open>
  The body of the loop of \<^verbatim>\<open>ConformanceValidator.validate_judgment_creation\<close>. In the
  handler, \<^verbatim>\<open>test_case['expected_error']\<close> is a plain subscript: a vector without the key
  raises \<open>KeyError\<close> there, outside every \<^verbatim>\<open>try\<close>.
\<close>

definition cv_judgment_creation_case :: "sdk_module \<Rightarrow> tally \<Rightarrow> test_case \<Rightarrow> exn + tally" where
  "cv_judgment_creation_case sdk st0 test_case =
     (let st = add_total 1 st0; test_name = name test_case in
      case NeutrosophicJudgment sdk (input test_case) of
        Inr judgment \<Rightarrow>
          if expected_valid test_case
          then Inr (add_passed 1 (print_line PASS test_name st))
          else Inr (print_line FAIL (test_name @ '' - Should have failed but didn't'') st)
      | Inl e \<Rightarrow>
          (let error_msg = str_of e in
           if \<not> expected_valid test_case
           then
             (case expected_error test_case of
                None \<Rightarrow> Inl (key_error ''expected_error'')
              | Some expected \<Rightarrow>
                  if expected \<noteq> [] \<and> sublist expected error_msg
                  then Inr (add_passed 1 (print_line PASS test_name st))
                  else Inr (add_passed 1
                         (print_line WARN
                            (test_name @ '' - Failed as expected but wrong error: '' @ error_msg)
                            st)))
           else Inr (print_line FAIL (test_name @ '' - Unexpected error: '' @ error_msg) st)))"

fun cv_judgment_creation_loop :: "sdk_module \<Rightarrow> tally \<Rightarrow> test_case list \<Rightarrow> exn + tally" where
  "cv_judgment_creation_loop sdk st [] = Inr st"
| "cv_judgment_creation_loop sdk st (test_case # rest) =
     (case cv_judgment_creation_case sdk st test_case of
        Inl e \<Rightarrow> Inl e
      | Inr st' \<Rightarrow> cv_judgment_creation_loop sdk st' rest)"

text \<open>\<^verbatim>\<open>self.test_vectors.get('judgments', [])\<close> is the list looped over.\<close>

definition cv_validate_judgment_creation :: "sdk_module \<Rightarrow> test_vectors \<Rightarrow> exn + tally" where
  "cv_validate_judgment_creation sdk tv =
     cv_judgment_creation_loop sdk empty_tally
       (case tv_judgments tv of None \<Rightarrow> [] | Some vectors \<Rightarrow> vectors)"

subsection \<open>check\_conformance.py: fusion operators\<close>

text \<open>
  Reading a local variable that was never assigned. The message is that of CPython 3.11
  and later.
\<close>

definition unbound_local :: "string \<Rightarrow> exn" where
  "unbound_local v =
     Exn UnboundLocalError
       (''cannot access local variable '' @ [CHR 0x27] @ v @ [CHR 0x27]
        @ '' where it is not associated with a value'')"

text \<open>
  One of the three \<^verbatim>\<open>try\<close> blocks of \<^verbatim>\<open>validate_fusion_operators\<close>: \<open>call\<close> is the
  outcome of everything before the validity test, which is written inline here.
\<close>

definition cv_fusion_block :: "string \<Rightarrow> exn + py_object \<Rightarrow> tally \<Rightarrow> tally" where
  "cv_fusion_block label call st =
     (case (case call of Inl e \<Rightarrow> Inl e | Inr result \<Rightarrow> validity_condition result) of
        Inr valid \<Rightarrow>
          add_total 1
            (if valid then add_passed 1 (print_line PASS label st)
             else print_line FAIL (label @ '' - Invalid result'') st)
      | Inl e \<Rightarrow> add_total 1 (print_line FAIL (label @ '' - Error: '' @ str_of e) st))"

text \<open>
  \<^verbatim>\<open>ConformanceValidator.validate_fusion_operators\<close>. The two judgments are built inside
  the first \<^verbatim>\<open>try\<close>; when that fails the variable \<^verbatim>\<open>judgments\<close> stays unassigned and the
  next two blocks raise \<open>UnboundLocalError\<close> inside their own \<^verbatim>\<open>try\<close>.
\<close>

definition cv_validate_fusion_operators :: "sdk_module \<Rightarrow> tally" where
  "cv_validate_fusion_operators sdk =
     (let judgments =
            (case NeutrosophicJudgment sdk (canonical_input 0.8 0.2 0.0 ''test1'') of
               Inl e \<Rightarrow> Inl e
             | Inr j1 \<Rightarrow>
            (case NeutrosophicJudgment sdk (canonical_input 0.6 0.3 0.1 ''test2'') of
               Inl e \<Rightarrow> Inl e
             | Inr j2 \<Rightarrow> Inr [j1, j2]));
          st1 = cv_fusion_block ''Conflict-aware weighted average''
                  (case judgments of
                     Inl e \<Rightarrow> Inl e
                   | Inr js \<Rightarrow>
                       conflict_aware_weighted_average sdk js [py_float 0.6, py_float 0.4])
                  empty_tally;
          st2 = cv_fusion_block ''Optimistic fusion''
                  (case judgments of
                     Inl e \<Rightarrow> Inl (unbound_local ''judgments'')
                   | Inr js \<Rightarrow> optimistic_fusion sdk js)
                  st1
      in cv_fusion_block ''Pessimistic fusion''
           (case judgments of
              Inl e \<Rightarrow> Inl (unbound_local ''judgments'')
            | Inr js \<Rightarrow> pessimistic_fusion sdk js)
           st2)"

subsection \<open>check\_conformance.py: provenance chain\<close>

text \<open>The outer handler: \<^verbatim>\<open>except Exception as e: print(...); total += 2\<close>.\<close>

definition provenance_outer_handler :: "exn \<Rightarrow> tally \<Rightarrow> tally" where
  "provenance_outer_handler e st =
     add_total 2 (print_line FAIL (''Provenance chain tests - Error: '' @ str_of e) st)"

text \<open>
  \<^verbatim>\<open>ConformanceValidator.validate_provenance_chain\<close>. The inner handler is
  \<^verbatim>\<open>except (AttributeError, TypeError)\<close>; any other exception of the append leaves the inner
  \<^verbatim>\<open>try\<close> and reaches the outer handler, after the first \<^verbatim>\<open>total += 1\<close>.
\<close>

definition cv_validate_provenance_chain :: "sdk_module \<Rightarrow> tally" where
  "cv_validate_provenance_chain sdk =
     (case NeutrosophicJudgment sdk (canonical_input 0.8 0.2 0.0 ''test'') of
        Inl e \<Rightarrow> provenance_outer_handler e empty_tally
      | Inr judgment \<Rightarrow>
     (case provenance_len judgment of
        Inl e \<Rightarrow> provenance_outer_handler e empty_tally
      | Inr n \<Rightarrow>
          (let st1 = add_total 1
                       (if n = 1
                        then add_passed 1 (print_line PASS ''Provenance chain creation'' empty_tally)
                        else print_line FAIL ''Provenance chain creation - Wrong length''
                               empty_tally)
           in case provenance_append judgment [(''source_id'', ''hack'')] of
                Inr u \<Rightarrow>
                  add_total 1
                    (print_line FAIL ''Provenance chain immutability - Should be immutable'' st1)
              | Inl e \<Rightarrow>
                  if cls e = AttributeError \<or> cls e = TypeError
                  then add_total 1
                         (add_passed 1 (print_line PASS ''Provenance chain immutability'' st1))
                  else provenance_outer_handler e st1)))"

subsection \<open>check\_conformance.py: the run\<close>

record cv_report =
  cv_judgment_creation :: "nat \<times> nat"
  cv_fusion_operators :: "nat \<times> nat"
  cv_provenance_chain :: "nat \<times> nat"
  cv_overall :: overall

definition cv_run_validation :: "test_vectors \<Rightarrow> exn + sdk_module \<Rightarrow> cv_report run_outcome" where
  "cv_run_validation tv sdk_load =
     (case sdk_load of
        Inl e \<Rightarrow> Load_failed (str_of e)
      | Inr sdk \<Rightarrow>
     (case cv_validate_judgment_creation sdk tv of
        Inl e \<Rightarrow> Aborted e
      | Inr jc \<Rightarrow>
          (let fo = cv_validate_fusion_operators sdk;
               pc = cv_validate_provenance_chain sdk;
               total_passed = cv_passed jc + cv_passed fo + cv_passed pc;
               total_tests = cv_total jc + cv_total fo + cv_total pc
           in Completed
                \<lparr>cv_judgment_creation = (cv_passed jc, cv_total jc),
                 cv_fusion_operators = (cv_passed fo, cv_total fo),
                 cv_provenance_chain = (cv_passed pc, cv_total pc),
                 cv_overall = \<lparr>overall_passed = total_passed, overall_total = total_tests,
                               score = compute_score total_passed total_tests\<rparr>\<rparr>)))"

text \<open>
  \<^verbatim>\<open>main\<close>: the constructor of \<^verbatim>\<open>ConformanceValidator\<close> loads the fixtures, then
  \<^verbatim>\<open>run_validation\<close> imports the candidate and runs the categories.
\<close>

definition cv_main :: "fixtures \<Rightarrow> exn + sdk_module \<Rightarrow> cv_report run_outcome" where
  "cv_main fx sdk_load =
     (case load_test_vectors fx of
        Inl e \<Rightarrow> Aborted e
      | Inr tv \<Rightarrow> cv_run_validation tv sdk_load)"

subsection \<open>Example candidates and fixtures\<close>

text \<open>
  Inputs for the concrete evaluations below. \<open>first_judgment\<close> is a fusion operator that
  returns its first argument.
\<close>

definition first_judgment :: "py_object list \<Rightarrow> exn + py_object" where
  "first_judgment js =
     (case js of [] \<Rightarrow> Inl (Exn OtherException ''no judgments'') | j # rest \<Rightarrow> Inr j)"

definition make_sdk ::
  "(judgment_input \<Rightarrow> exn + py_object) \<Rightarrow> (py_object list \<Rightarrow> exn + py_object) \<Rightarrow> sdk_module" where
  "make_sdk ctor fuse =
     \<lparr>NeutrosophicJudgment = ctor,
      conflict_aware_weighted_average = (\<lambda>js ws. fuse js),
      optimistic_fusion = fuse, pessimistic_fusion = fuse\<rparr>"

text \<open>
  A constructor that enforces the protocol invariant, with the arithmetic of the harness.
\<close>

definition checking_ctor :: "judgment_input \<Rightarrow> exn + py_object" where
  "checking_ctor inp =
     (if components_valid (inp_T inp) (inp_I inp) (inp_F inp)
      then Inr (float_object (inp_T inp) (inp_I inp) (inp_F inp))
      else Inl (Exn OtherException ''T+I+F exceeds 1.0''))"

text \<open>A constructor that accepts everything, and one that always raises.\<close>

definition lenient_ctor :: "judgment_input \<Rightarrow> exn + py_object" where
  "lenient_ctor inp = Inr (float_object (inp_T inp) (inp_I inp) (inp_F inp))"

definition raising_ctor :: "judgment_input \<Rightarrow> exn + py_object" where
  "raising_ctor inp = Inl (Exn OtherException ''not implemented'')"

text \<open>A constructor that refuses a truth value below 0.85 and nothing else.\<close>

definition picky_ctor :: "judgment_input \<Rightarrow> exn + py_object" where
  "picky_ctor inp =
     (if valof (inp_T inp) < valof (py_float 0.85) then Inl (Exn OtherException ''T is too low'')
      else Inr (float_object (inp_T inp) (inp_I inp) (inp_F inp)))"

text \<open>
  A constructor whose provenance chain refuses \<^verbatim>\<open>append\<close> with an exception class of the
  candidate's own.
\<close>

definition frozen_ctor :: "judgment_input \<Rightarrow> exn + py_object" where
  "frozen_ctor inp =
     Inr ((float_object (inp_T inp) (inp_I inp) (inp_F inp))
            \<lparr>provenance_append := (\<lambda>entry. Inl (Exn OtherException ''chain is frozen''))\<rparr>)"

text \<open>A constructor whose provenance chain is a plain mutable list.\<close>

definition mutable_ctor :: "judgment_input \<Rightarrow> exn + py_object" where
  "mutable_ctor inp =
     Inr ((float_object (inp_T inp) (inp_I inp) (inp_F inp))
            \<lparr>provenance_append := (\<lambda>entry. Inr ())\<rparr>)"

definition reference_sdk :: sdk_module where
  "reference_sdk = make_sdk checking_ctor first_judgment"

definition lenient_sdk :: sdk_module where
  "lenient_sdk = make_sdk lenient_ctor first_judgment"

definition raising_sdk :: sdk_module where
  "raising_sdk = make_sdk raising_ctor first_judgment"

definition frozen_sdk :: sdk_module where
  "frozen_sdk = make_sdk frozen_ctor first_judgment"

definition mutable_sdk :: sdk_module where
  "mutable_sdk = make_sdk mutable_ctor first_judgment"

definition picky_sdk :: sdk_module where
  "picky_sdk = make_sdk picky_ctor first_judgment"

text \<open>A candidate that accepts every input and whose fusion falls back to \<open>(0, 0, 0)\<close>.\<close>

definition fallback_sdk :: sdk_module where
  "fallback_sdk = make_sdk lenient_ctor (\<lambda>js. Inr (plain_object 0 0 0))"

text \<open>A fusion that keeps \<^verbatim>\<open>T\<close> of the single input but changes \<^verbatim>\<open>I\<close> and \<^verbatim>\<open>F\<close>.\<close>

definition skewed_sdk :: sdk_module where
  "skewed_sdk = make_sdk checking_ctor (\<lambda>js. Inr (plain_object 0.8 0.1 0.1))"

text \<open>A vector of \<^verbatim>\<open>judgments.json\<close>, from the JSON numbers of its input.\<close>

definition vector :: "string \<Rightarrow> real \<Rightarrow> real \<Rightarrow> real \<Rightarrow> bool \<Rightarrow> string option \<Rightarrow> test_case" where
  "vector n t i f valid err =
     \<lparr>name = n,
      input = \<lparr>inp_T = py_float t, inp_I = py_float i, inp_F = py_float f,
               inp_provenance_chain =
                 [[(''source_id'', ''s1''), (''timestamp'', ''2025-01-01T00:00:00Z'')]]\<rparr>,
      expected_valid = valid, expected_error = err\<rparr>"

definition basic_valid :: test_case where
  "basic_valid = vector ''basic_valid'' 0.7 0.2 0.1 True None"

definition sum_exceeds_one :: test_case where
  "sum_exceeds_one = vector ''sum_exceeds_one'' 0.6 0.5 0.1 False (Some ''sum'')"

definition exceeds_pinned :: test_case where
  "exceeds_pinned = vector ''exceeds_pinned'' 0.6 0.5 0.1 False (Some ''exceeds'')"

definition empty_expectation :: test_case where
  "empty_expectation = vector ''empty_expectation'' 0.6 0.5 0.1 False (Some [])"

definition no_expectation :: test_case where
  "no_expectation = vector ''no_expectation'' 0.6 0.5 0.1 False None"

definition fixtures_with :: "test_case list \<Rightarrow> fixtures" where
  "fixtures_with vs =
     \<lparr>judgments_json = Object [''test_vectors'' \<mapsto> vs], fusion_tests_json = Absent\<rparr>"




section \<open>Properties\<close>

lemmas category_defs = incr_total_def incr_passed_def append_detail_def empty_category_def

lemmas tally_defs = print_line_def add_passed_def add_total_def empty_tally_def

lemmas candidate_defs = make_sdk_def reference_sdk_def lenient_sdk_def raising_sdk_def
  frozen_sdk_def mutable_sdk_def skewed_sdk_def picky_sdk_def fallback_sdk_def
  checking_ctor_def lenient_ctor_def raising_ctor_def picky_ctor_def frozen_ctor_def
  mutable_ctor_def first_judgment_def canonical_input_def plain_object_def

lemmas vector_defs = vector_def basic_valid_def sum_exceeds_one_def exceeds_pinned_def
  empty_expectation_def no_expectation_def

subsection \<open>Python floats\<close>

lemma bitlen_eqI:
  assumes "2 ^ k \<le> m" and "m < 2 ^ Suc k"
  shows "bitlen m = int k + 1"
proof -
  have "0 \<le> m - 2 ^ k" and "m - 2 ^ k < 2 ^ k" using assms by simp_all
  from bitlen_twopow_add_eq [OF this] show ?thesis by simp
qed

lemma round_double_zero: "round_double 0 = 0"
  by (simp add: round_double_def)

text \<open>
  A positive number whose binade is known: when \<open>x * 2 ^ p\<close> lies between \<open>2 ^ 52\<close> and
  \<open>2 ^ 53\<close>, the doubles around \<open>x\<close> are the multiples of \<open>2 ^ -p\<close>, and \<open>x\<close> is rounded
  to the nearest of them.
\<close>

lemma round_double_scaled:
  assumes p: "p \<le> subnormal_bits" and lo: "2 ^ 52 \<le> x * 2 ^ p" and hi: "x * 2 ^ p < 2 ^ 53"
  shows "round_double x = of_int (round_half_even (x * 2 ^ p)) / 2 ^ p"
proof -
  have xpos: "0 < x"
  proof (rule ccontr)
    assume "\<not> 0 < x"
    then have "x * 2 ^ p \<le> 0" by (simp add: mult_le_0_iff)
    with lo show False by (smt (verit) zero_less_power)
  qed
  define k where "k = subnormal_bits - p"
  define n where "n = \<bar>x\<bar> * 2 ^ subnormal_bits"
  have s: "subnormal_bits = k + p" using p by (simp add: k_def)
  have n: "n = (x * 2 ^ p) * 2 ^ k"
    using xpos by (simp add: n_def s power_add)
  have nlo: "2 ^ (52 + k) \<le> n"
    unfolding n power_add using lo by (simp add: mult_right_mono)
  have nhi: "n < 2 ^ (53 + k)"
    unfolding n power_add using hi by (simp add: mult_strict_right_mono)
  have flo: "2 ^ (52 + k) \<le> \<lfloor>n\<rfloor>"
  proof -
    have "of_int (2 ^ (52 + k)) \<le> n" using nlo by simp
    then show ?thesis by (simp only: le_floor_iff)
  qed
  have fhi: "\<lfloor>n\<rfloor> < 2 ^ Suc (52 + k)"
  proof -
    have "n < of_int (2 ^ Suc (52 + k))" using nhi by simp
    then show ?thesis by (simp only: floor_less_iff)
  qed
  have bl: "bitlen \<lfloor>n\<rfloor> = int (52 + k) + 1" by (rule bitlen_eqI [OF flo fhi])
  have u: "nat (bitlen \<lfloor>n\<rfloor> - 53) = k" unfolding bl by simp
  have q: "n / 2 ^ k = x * 2 ^ p" unfolding n by simp
  have sg: "sgn x = 1" using xpos by simp
  have "round_double x = of_int (round_half_even (x * 2 ^ p)) * 2 ^ k / 2 ^ subnormal_bits"
    unfolding round_double_def Let_def n_def [symmetric] u q sg by simp
  also have "\<dots> = of_int (round_half_even (x * 2 ^ p)) / 2 ^ p"
    unfolding s power_add by simp
  finally show ?thesis .
qed

lemmas round_double_at = round_double_scaled [unfolded subnormal_bits_def]

lemma valof_py_float: "valof (py_float x) = round_double x"
  by (simp add: py_float_def Abs_double_inverse)

lemma valof_float_add: "valof (float_add a b) = round_double (valof a + valof b)"
  by (simp add: float_add_def valof_py_float)

lemma valof_one: "valof (py_float 1) = 1"
  by (simp add: valof_py_float round_double_at [of 52] round_half_even_def)

lemma py_float_eq_iff: "py_float x = py_float y \<longleftrightarrow> round_double x = round_double y"
  by (simp add: py_float_def Abs_double_inject)

text \<open>
  The rules that evaluate the floats of the harness: its literals and their sums lie in
  the binades from \<open>2 ^ -4\<close> to \<open>2 ^ 1\<close>.
\<close>

lemmas float_eval = components_valid_def valof_float_add valof_py_float py_float_eq_iff
  round_double_zero round_double_at [of 52] round_double_at [of 53] round_double_at [of 54]
  round_double_at [of 55] round_double_at [of 56] round_half_even_def

text \<open>
  The literals of the harness as the floats they denote, and two of its sums:
  \<^verbatim>\<open>0.8 + 0.2\<close> is \<^verbatim>\<open>1.0\<close> although the two floats add up to more than 1, and
  \<^verbatim>\<open>0.56 + 0.34 + 0.1\<close> is more than \<^verbatim>\<open>1.0\<close>.
\<close>

lemma float_literals:
  "valof (py_float 0.8) = 3602879701896397 / 4503599627370496"
  "valof (py_float 0.2) = 3602879701896397 / 18014398509481984"
  "valof (py_float 0.1) = 3602879701896397 / 36028797018963968"
  "valof (py_float 0.9) = 8106479329266893 / 9007199254740992"
  "valof (py_float 0.5) = 1 / 2"
  "valof (py_float 1.0) = 1"
  "valof (py_float 0.0) = 0"
  by (simp_all add: float_eval)

lemma float_sums:
  "valof (float_add (py_float 0.8) (py_float 0.2)) = 1"
  "1 < valof (py_float 0.8) + valof (py_float 0.2)"
  "valof (float_add (float_add (py_float 0.56) (py_float 0.34)) (py_float 0.1))
     = 4503599627370497 / 4503599627370496"
  by (simp_all add: float_eval)

subsection \<open>The validity predicate\<close>

lemma validity_condition_cases:
  "validity_condition j =
     (case attr_T j of Inl e \<Rightarrow> Inl e | Inr t \<Rightarrow>
        if \<not> (0 \<le> valof t \<and> valof t \<le> 1) then Inr False else
     (case attr_I j of Inl e \<Rightarrow> Inl e | Inr i \<Rightarrow>
        if \<not> (0 \<le> valof i \<and> valof i \<le> 1) then Inr False else
     (case attr_F j of Inl e \<Rightarrow> Inl e | Inr f \<Rightarrow>
        if \<not> (0 \<le> valof f \<and> valof f \<le> 1) then Inr False
        else Inr (valof (float_add (float_add t i) f) \<le> 1))))"
  by (simp add: validity_condition_def valof_one split: sum.splits)

lemma float_object_reads:
  "attr_T (float_object t i f) = Inr t" "attr_I (float_object t i f) = Inr i"
  "attr_F (float_object t i f) = Inr f" "provenance_len (float_object t i f) = Inr 1"
  "provenance_append (float_object t i f) entry
     = Inl (Exn AttributeError ''tuple has no attribute append'')"
  by (simp_all add: float_object_def)

lemma plain_object_reads:
  "attr_T (plain_object t i f) = Inr (py_float t)"
  "attr_I (plain_object t i f) = Inr (py_float i)"
  "attr_F (plain_object t i f) = Inr (py_float f)"
  "provenance_len (plain_object t i f) = Inr 1"
  "provenance_append (plain_object t i f) entry
     = Inl (Exn AttributeError ''tuple has no attribute append'')"
  by (simp_all add: plain_object_def float_object_reads)

lemma is_valid_by_reads:
  assumes "attr_T j = Inr t" and "attr_I j = Inr i" and "attr_F j = Inr f"
  shows "is_valid_judgment j = Inr (components_valid t i f)"
  using assms
  by (auto simp: is_valid_judgment_def validity_condition_cases components_valid_def
      valof_one)

lemma is_valid_float_object:
  "is_valid_judgment (float_object t i f) = Inr (components_valid t i f)"
  by (rule is_valid_by_reads) (rule float_object_reads)+

lemma is_valid_plain_object:
  "is_valid_judgment (plain_object t i f)
     = Inr (components_valid (py_float t) (py_float i) (py_float f))"
  by (simp add: plain_object_def is_valid_float_object)

lemma is_valid_judgment_total: "\<exists>b. is_valid_judgment j = Inr b"
  by (cases "validity_condition j") (auto simp: is_valid_judgment_def)

text \<open>
  The predicate follows the rounding of the two additions: \<^verbatim>\<open>0.5 + 0.5 + 1e-17\<close> is
  \<^verbatim>\<open>1.0\<close>, and \<^verbatim>\<open>0.56 + 0.34 + 0.1\<close> is \<^verbatim>\<open>1.0000000000000002\<close>.
\<close>

lemma is_valid_judgment_rounding:
  "is_valid_judgment (plain_object 0.5 0.5 (1 / 10 ^ 17)) = Inr True"
  "is_valid_judgment (plain_object 0.56 0.34 0.1) = Inr False"
  by (simp_all add: is_valid_plain_object float_eval round_double_at [of 109])

text \<open>
  Claim C6, as the code has it. \<open>is_valid_judgment j\<close> always returns (it never propagates
  an exception); it returns true exactly when the three attributes can be read, each of
  them lies between 0 and 1, and the sum \<^verbatim>\<open>j.T + j.I + j.F\<close> computed in double
  precision, each of its two additions rounded to the nearest double, is at most 1; and
  when a read of an attribute raises, the result is false.
\<close>

theorem is_valid_judgment_iff:
  "is_valid_judgment j =
     Inr (\<exists>t i f. attr_T j = Inr t \<and> attr_I j = Inr i \<and> attr_F j = Inr f \<and>
            0 \<le> valof t \<and> valof t \<le> 1 \<and> 0 \<le> valof i \<and> valof i \<le> 1 \<and>
            0 \<le> valof f \<and> valof f \<le> 1 \<and>
            round_double (round_double (valof t + valof i) + valof f) \<le> 1)
   \<and> ((\<exists>e. attr_T j = Inl e \<or> attr_I j = Inl e \<or> attr_F j = Inl e)
        \<longrightarrow> is_valid_judgment j = Inr False)"
  by (auto simp: is_valid_judgment_def validity_condition_cases valof_float_add
      split: sum.splits)

theorem is_valid_judgment_iff_witness:
  "is_valid_judgment (plain_object 0.8 0.2 0) = Inr True
   \<and> is_valid_judgment (plain_object 0.9 0.1 0.9) = Inr False
   \<and> attr_I broken_object = Inl (Exn AttributeError ''no attribute I'')
   \<and> is_valid_judgment broken_object = Inr False"
  using is_valid_judgment_iff [of "plain_object 0.8 0.2 0"]
    is_valid_judgment_iff [of "plain_object 0.9 0.1 0.9"]
    is_valid_judgment_iff [of broken_object]
  by (simp add: plain_object_def float_object_def broken_object_def float_eval)

text \<open>
  Claim C6 as stated fails, where the sum is that of the numbers: an object holding
  \<open>1/2\<close>, \<open>1/2\<close> and \<open>2 ^ -60\<close>, three numbers that are doubles, is valid although they
  add up to more than 1, because the float sum is \<^verbatim>\<open>1.0\<close>; the canonical judgment of
  the harness, \<open>(0.8, 0.2, 0.0)\<close>, is valid for the same reason. And an object written
  \<open>(0.56, 0.34, 0.1)\<close>, decimals that add up to 1, is not valid.
\<close>

theorem is_valid_judgment_counterexample:
  "is_valid_judgment (plain_object (1 / 2) (1 / 2) (1 / 2 ^ 60)) = Inr True
   \<and> valof (py_float (1 / 2)) = 1 / 2 \<and> valof (py_float (1 / 2 ^ 60)) = 1 / 2 ^ 60
   \<and> \<not> valof (py_float (1 / 2)) + valof (py_float (1 / 2)) + valof (py_float (1 / 2 ^ 60)) \<le> 1
   \<and> is_valid_judgment (plain_object 0.8 0.2 0.0) = Inr True
   \<and> \<not> valof (py_float 0.8) + valof (py_float 0.2) + valof (py_float 0.0) \<le> 1
   \<and> is_valid_judgment (plain_object 0.56 0.34 0.1) = Inr False
   \<and> (0.56 :: real) + 0.34 + 0.1 \<le> 1"
  by (simp add: is_valid_plain_object float_eval round_double_at [of 112])

subsection \<open>Edge cases of validate\_vectors.py\<close>

lemma single_judgment_condition_True_iff:
  "single_judgment_condition sdk = Inr True
   \<longleftrightarrow> (\<exists>judgment result.
          NeutrosophicJudgment sdk (canonical_input 0.8 0.2 0.0 ''test'') = Inr judgment
        \<and> conflict_aware_weighted_average sdk [judgment] [py_float 1.0] = Inr result
        \<and> is_valid_judgment result = Inr True
        \<and> attr_T result = Inr (py_float 0.8))"
  by (auto simp: single_judgment_condition_def split: sum.splits if_splits)

lemma tvv_single_judgment_probe_fields:
  "status (last (details (tvv_single_judgment_probe sdk c)))
     = (if single_judgment_condition sdk = Inr True then PASS else FAIL)
   \<and> test (last (details (tvv_single_judgment_probe sdk c))) = ''single_judgment_fusion''
   \<and> butlast (details (tvv_single_judgment_probe sdk c)) = details c
   \<and> passed (tvv_single_judgment_probe sdk c)
     = passed c + (if single_judgment_condition sdk = Inr True then 1 else 0)
   \<and> total (tvv_single_judgment_probe sdk c) = total c + 1"
  by (cases "single_judgment_condition sdk")
     (simp_all add: tvv_single_judgment_probe_def category_defs Let_def)

text \<open>
  Claim C5, as the code has it. The single-judgment probe passes (verdict \<open>PASS\<close>, counted
  as passed) exactly when the constructor accepts the canonical judgment, the weighted
  fusion of that one judgment with weight \<open>[1.0]\<close> returns, the result is valid per
  \<open>is_valid_judgment\<close>, and the result's \<open>T\<close> equals the float \<open>0.8\<close>. The components \<open>I\<close>
  and \<open>F\<close> of the result are not compared with the input.
\<close>

theorem single_judgment_probe_passes_iff:
  "(status (last (details (tvv_single_judgment_probe sdk c))) = PASS
    \<and> passed (tvv_single_judgment_probe sdk c) = passed c + 1)
   \<longleftrightarrow> (\<exists>judgment result.
          NeutrosophicJudgment sdk (canonical_input 0.8 0.2 0.0 ''test'') = Inr judgment
        \<and> conflict_aware_weighted_average sdk [judgment] [py_float 1.0] = Inr result
        \<and> is_valid_judgment result = Inr True
        \<and> attr_T result = Inr (py_float 0.8))"
  unfolding single_judgment_condition_True_iff [symmetric]
  by (simp add: tvv_single_judgment_probe_fields)

theorem single_judgment_probe_passes_iff_witness:
  "status (last (details (tvv_single_judgment_probe reference_sdk empty_category))) = PASS
   \<and> passed (tvv_single_judgment_probe reference_sdk empty_category) = 1"
proof -
  have "\<exists>judgment result.
          NeutrosophicJudgment reference_sdk (canonical_input 0.8 0.2 0.0 ''test'') = Inr judgment
        \<and> conflict_aware_weighted_average reference_sdk [judgment] [py_float 1.0] = Inr result
        \<and> is_valid_judgment result = Inr True
        \<and> attr_T result = Inr (py_float 0.8)"
    by (simp add: candidate_defs is_valid_float_object float_object_reads float_eval)
  with single_judgment_probe_passes_iff [of reference_sdk empty_category]
  show ?thesis by (simp add: empty_category_def)
qed

text \<open>
  Claim C5 as stated fails: a fusion that returns \<open>(0.8, 0.1, 0.1)\<close> for the input
  \<open>(0.8, 0.2, 0.0)\<close> differs from the input in \<open>I\<close> and \<open>F\<close>, and the probe passes.
\<close>

theorem single_judgment_probe_counterexample:
  "conflict_aware_weighted_average skewed_sdk [plain_object 0.8 0.2 0.0] [py_float 1.0]
     = Inr (plain_object 0.8 0.1 0.1)
   \<and> NeutrosophicJudgment skewed_sdk (canonical_input 0.8 0.2 0.0 ''test'')
     = Inr (plain_object 0.8 0.2 0.0)
   \<and> attr_I (plain_object 0.8 0.1 0.1) \<noteq> attr_I (plain_object 0.8 0.2 0.0)
   \<and> attr_F (plain_object 0.8 0.1 0.1) \<noteq> attr_F (plain_object 0.8 0.2 0.0)
   \<and> tvv_single_judgment_probe skewed_sdk empty_category
     = \<lparr>passed = 1, total = 1,
        details = [\<lparr>test = ''single_judgment_fusion'', status = PASS,
                    message = ''Single judgment fusion works correctly''\<rparr>]\<rparr>"
  by (simp add: tvv_single_judgment_probe_def single_judgment_condition_def candidate_defs
      is_valid_float_object float_object_reads float_eval category_defs Let_def)

text \<open>
  The zero-weights probe, outcome by outcome: an exception of the first construction, of
  the second construction or of the fusion is recorded as \<open>FAIL\<close> with its message, and a
  result of the fusion is judged by \<open>is_valid_judgment\<close>.
\<close>

lemma zero_weights_input_invalid:
  "attr_T j = Inr (py_float 0.9) \<and> attr_I j = Inr (py_float 0.1) \<and> attr_F j = Inr (py_float 0.9)
     \<Longrightarrow> is_valid_judgment j = Inr False"
  "attr_T j = Inr (py_float 0.8) \<and> attr_I j = Inr (py_float 0.2) \<and> attr_F j = Inr (py_float 0.8)
     \<Longrightarrow> is_valid_judgment j = Inr False"
  using is_valid_by_reads [of j "py_float 0.9" "py_float 0.1" "py_float 0.9"]
    is_valid_by_reads [of j "py_float 0.8" "py_float 0.2" "py_float 0.8"]
  by (simp_all add: float_eval)

lemma zero_weights_input_sums:
  "1 < valof (inp_T (canonical_input 0.9 0.1 0.9 ''test1''))
       + valof (inp_I (canonical_input 0.9 0.1 0.9 ''test1''))
       + valof (inp_F (canonical_input 0.9 0.1 0.9 ''test1''))"
  "1 < valof (inp_T (canonical_input 0.8 0.2 0.8 ''test2''))
       + valof (inp_I (canonical_input 0.8 0.2 0.8 ''test2''))
       + valof (inp_F (canonical_input 0.8 0.2 0.8 ''test2''))"
  "\<not> components_valid (inp_T (canonical_input 0.9 0.1 0.9 ''test1''))
       (inp_I (canonical_input 0.9 0.1 0.9 ''test1''))
       (inp_F (canonical_input 0.9 0.1 0.9 ''test1''))"
  "\<not> components_valid (inp_T (canonical_input 0.8 0.2 0.8 ''test2''))
       (inp_I (canonical_input 0.8 0.2 0.8 ''test2''))
       (inp_F (canonical_input 0.8 0.2 0.8 ''test2''))"
  by (simp_all add: canonical_input_def float_eval)

lemma zero_weights_first_raises:
  assumes "NeutrosophicJudgment sdk (canonical_input 0.9 0.1 0.9 ''test1'') = Inl e"
  shows "tvv_zero_weights_probe sdk c
           = append_detail ''zero_weights_fallback'' FAIL (''Error: '' @ str_of e) (incr_total c)"
  using assms by (simp add: tvv_zero_weights_probe_def zero_weights_condition_def Let_def)

lemma zero_weights_second_raises:
  assumes "NeutrosophicJudgment sdk (canonical_input 0.9 0.1 0.9 ''test1'') = Inr j1"
    and "NeutrosophicJudgment sdk (canonical_input 0.8 0.2 0.8 ''test2'') = Inl e"
  shows "tvv_zero_weights_probe sdk c
           = append_detail ''zero_weights_fallback'' FAIL (''Error: '' @ str_of e) (incr_total c)"
  using assms by (simp add: tvv_zero_weights_probe_def zero_weights_condition_def Let_def)

lemma zero_weights_both_accepted:
  assumes "NeutrosophicJudgment sdk (canonical_input 0.9 0.1 0.9 ''test1'') = Inr j1"
    and "NeutrosophicJudgment sdk (canonical_input 0.8 0.2 0.8 ''test2'') = Inr j2"
  shows "tvv_zero_weights_probe sdk c =
           (case conflict_aware_weighted_average sdk [j1, j2] [py_float 0.0, py_float 0.0] of
              Inl e \<Rightarrow> append_detail ''zero_weights_fallback'' FAIL (''Error: '' @ str_of e)
                         (incr_total c)
            | Inr result \<Rightarrow>
                if is_valid_judgment result = Inr True
                then append_detail ''zero_weights_fallback'' PASS
                       ''Zero weights fallback works correctly'' (incr_passed (incr_total c))
                else append_detail ''zero_weights_fallback'' FAIL
                       ''Zero weights fallback failed'' (incr_total c))"
proof (cases "conflict_aware_weighted_average sdk [j1, j2] [py_float 0.0, py_float 0.0]")
  case (Inl e)
  with assms show ?thesis
    by (simp add: tvv_zero_weights_probe_def zero_weights_condition_def Let_def)
next
  case (Inr result)
  from is_valid_judgment_total [of result] obtain b where "is_valid_judgment result = Inr b"
    by blast
  with assms Inr show ?thesis
    by (cases b) (simp_all add: tvv_zero_weights_probe_def zero_weights_condition_def Let_def)
qed

lemma zero_weights_rejected:
  assumes "(\<exists>e. NeutrosophicJudgment sdk (canonical_input 0.9 0.1 0.9 ''test1'') = Inl e)
           \<or> (\<exists>e. NeutrosophicJudgment sdk (canonical_input 0.8 0.2 0.8 ''test2'') = Inl e)"
  shows "status (last (details (tvv_zero_weights_probe sdk c))) = FAIL
       \<and> passed (tvv_zero_weights_probe sdk c) = passed c
       \<and> total (tvv_zero_weights_probe sdk c) = total c + 1"
proof (cases "NeutrosophicJudgment sdk (canonical_input 0.9 0.1 0.9 ''test1'')")
  case (Inl e)
  from zero_weights_first_raises [OF this] show ?thesis by (simp add: category_defs)
next
  case (Inr j1)
  with assms obtain e where
    "NeutrosophicJudgment sdk (canonical_input 0.8 0.2 0.8 ''test2'') = Inl e" by auto
  from zero_weights_second_raises [OF Inr this] show ?thesis by (simp add: category_defs)
qed

text \<open>
  Claim C9. The two inputs of the zero-weights probe are \<open>(0.9, 0.1, 0.9)\<close> and
  \<open>(0.8, 0.2, 0.8)\<close>; each sums to more than 1 and an object with these components fails
  \<open>is_valid_judgment\<close>. The probe passes the first to the constructor, then the second,
  then the two judgments to the fusion with weights \<open>[0.0, 0.0]\<close>, all inside its \<^verbatim>\<open>try\<close>:
  when the first construction raises, or the first returns and the second raises, the
  probe records \<open>FAIL\<close> with the message of the exception; when both return, the verdict
  is that of the fusion and of \<open>is_valid_judgment\<close> on its result. So a candidate that
  rejects one of the two inputs gets \<open>FAIL\<close> and no pass is counted; in particular a
  candidate that rejects every input whose components fail the validity conditions
  raises at the first construction.
\<close>

theorem zero_weights_probe_fails_when_inputs_rejected:
  "(\<forall>j. attr_T j = Inr (py_float 0.9) \<and> attr_I j = Inr (py_float 0.1)
          \<and> attr_F j = Inr (py_float 0.9) \<longrightarrow> is_valid_judgment j = Inr False)
 \<and> (\<forall>j. attr_T j = Inr (py_float 0.8) \<and> attr_I j = Inr (py_float 0.2)
          \<and> attr_F j = Inr (py_float 0.8) \<longrightarrow> is_valid_judgment j = Inr False)
 \<and> 1 < valof (inp_T (canonical_input 0.9 0.1 0.9 ''test1''))
         + valof (inp_I (canonical_input 0.9 0.1 0.9 ''test1''))
         + valof (inp_F (canonical_input 0.9 0.1 0.9 ''test1''))
 \<and> 1 < valof (inp_T (canonical_input 0.8 0.2 0.8 ''test2''))
         + valof (inp_I (canonical_input 0.8 0.2 0.8 ''test2''))
         + valof (inp_F (canonical_input 0.8 0.2 0.8 ''test2''))
 \<and> (\<forall>e. NeutrosophicJudgment sdk (canonical_input 0.9 0.1 0.9 ''test1'') = Inl e \<longrightarrow>
        tvv_zero_weights_probe sdk c
          = append_detail ''zero_weights_fallback'' FAIL (''Error: '' @ str_of e) (incr_total c))
 \<and> (\<forall>j1 e. NeutrosophicJudgment sdk (canonical_input 0.9 0.1 0.9 ''test1'') = Inr j1
           \<and> NeutrosophicJudgment sdk (canonical_input 0.8 0.2 0.8 ''test2'') = Inl e \<longrightarrow>
        tvv_zero_weights_probe sdk c
          = append_detail ''zero_weights_fallback'' FAIL (''Error: '' @ str_of e) (incr_total c))
 \<and> (\<forall>j1 j2. NeutrosophicJudgment sdk (canonical_input 0.9 0.1 0.9 ''test1'') = Inr j1
           \<and> NeutrosophicJudgment sdk (canonical_input 0.8 0.2 0.8 ''test2'') = Inr j2 \<longrightarrow>
        tvv_zero_weights_probe sdk c =
          (case conflict_aware_weighted_average sdk [j1, j2] [py_float 0.0, py_float 0.0] of
             Inl e \<Rightarrow> append_detail ''zero_weights_fallback'' FAIL (''Error: '' @ str_of e)
                        (incr_total c)
           | Inr result \<Rightarrow>
               if is_valid_judgment result = Inr True
               then append_detail ''zero_weights_fallback'' PASS
                      ''Zero weights fallback works correctly'' (incr_passed (incr_total c))
               else append_detail ''zero_weights_fallback'' FAIL
                      ''Zero weights fallback failed'' (incr_total c)))
 \<and> ((\<exists>e. NeutrosophicJudgment sdk (canonical_input 0.9 0.1 0.9 ''test1'') = Inl e)
      \<or> (\<exists>e. NeutrosophicJudgment sdk (canonical_input 0.8 0.2 0.8 ''test2'') = Inl e) \<longrightarrow>
        status (last (details (tvv_zero_weights_probe sdk c))) = FAIL
      \<and> passed (tvv_zero_weights_probe sdk c) = passed c
      \<and> total (tvv_zero_weights_probe sdk c) = total c + 1)
 \<and> ((\<forall>inp. \<not> components_valid (inp_T inp) (inp_I inp) (inp_F inp)
            \<longrightarrow> (\<exists>e. NeutrosophicJudgment sdk inp = Inl e)) \<longrightarrow>
        (\<exists>e. NeutrosophicJudgment sdk (canonical_input 0.9 0.1 0.9 ''test1'') = Inl e
            \<and> zero_weights_condition sdk = Inl e)
      \<and> status (last (details (tvv_zero_weights_probe sdk c))) = FAIL
      \<and> passed (tvv_zero_weights_probe sdk c) = passed c
      \<and> total (tvv_zero_weights_probe sdk c) = total c + 1)"
proof (intro conjI allI impI)
  fix j :: py_object
  assume "attr_T j = Inr (py_float 0.9) \<and> attr_I j = Inr (py_float 0.1)
          \<and> attr_F j = Inr (py_float 0.9)"
  then show "is_valid_judgment j = Inr False" by (rule zero_weights_input_invalid(1))
next
  fix j :: py_object
  assume "attr_T j = Inr (py_float 0.8) \<and> attr_I j = Inr (py_float 0.2)
          \<and> attr_F j = Inr (py_float 0.8)"
  then show "is_valid_judgment j = Inr False" by (rule zero_weights_input_invalid(2))
next
  show "1 < valof (inp_T (canonical_input 0.9 0.1 0.9 ''test1''))
         + valof (inp_I (canonical_input 0.9 0.1 0.9 ''test1''))
         + valof (inp_F (canonical_input 0.9 0.1 0.9 ''test1''))"
    by (rule zero_weights_input_sums(1))
next
  show "1 < valof (inp_T (canonical_input 0.8 0.2 0.8 ''test2''))
         + valof (inp_I (canonical_input 0.8 0.2 0.8 ''test2''))
         + valof (inp_F (canonical_input 0.8 0.2 0.8 ''test2''))"
    by (rule zero_weights_input_sums(2))
next
  fix e
  assume "NeutrosophicJudgment sdk (canonical_input 0.9 0.1 0.9 ''test1'') = Inl e"
  then show "tvv_zero_weights_probe sdk c
          = append_detail ''zero_weights_fallback'' FAIL (''Error: '' @ str_of e) (incr_total c)"
    by (rule zero_weights_first_raises)
next
  fix j1 e
  assume "NeutrosophicJudgment sdk (canonical_input 0.9 0.1 0.9 ''test1'') = Inr j1
           \<and> NeutrosophicJudgment sdk (canonical_input 0.8 0.2 0.8 ''test2'') = Inl e"
  then show "tvv_zero_weights_probe sdk c
          = append_detail ''zero_weights_fallback'' FAIL (''Error: '' @ str_of e) (incr_total c)"
    using zero_weights_second_raises by blast
next
  fix j1 j2
  assume "NeutrosophicJudgment sdk (canonical_input 0.9 0.1 0.9 ''test1'') = Inr j1
           \<and> NeutrosophicJudgment sdk (canonical_input 0.8 0.2 0.8 ''test2'') = Inr j2"
  then show "tvv_zero_weights_probe sdk c =
          (case conflict_aware_weighted_average sdk [j1, j2] [py_float 0.0, py_float 0.0] of
             Inl e \<Rightarrow> append_detail ''zero_weights_fallback'' FAIL (''Error: '' @ str_of e)
                        (incr_total c)
           | Inr result \<Rightarrow>
               if is_valid_judgment result = Inr True
               then append_detail ''zero_weights_fallback'' PASS
                      ''Zero weights fallback works correctly'' (incr_passed (incr_total c))
               else append_detail ''zero_weights_fallback'' FAIL
                      ''Zero weights fallback failed'' (incr_total c))"
    using zero_weights_both_accepted by blast
next
  assume r: "(\<exists>e. NeutrosophicJudgment sdk (canonical_input 0.9 0.1 0.9 ''test1'') = Inl e)
      \<or> (\<exists>e. NeutrosophicJudgment sdk (canonical_input 0.8 0.2 0.8 ''test2'') = Inl e)"
  from zero_weights_rejected [OF r, of c]
  show "status (last (details (tvv_zero_weights_probe sdk c))) = FAIL"
    and "passed (tvv_zero_weights_probe sdk c) = passed c"
    and "total (tvv_zero_weights_probe sdk c) = total c + 1"
    by simp_all
next
  assume h: "\<forall>inp. \<not> components_valid (inp_T inp) (inp_I inp) (inp_F inp)
            \<longrightarrow> (\<exists>e. NeutrosophicJudgment sdk inp = Inl e)"
  with zero_weights_input_sums(3) obtain e where
    e: "NeutrosophicJudgment sdk (canonical_input 0.9 0.1 0.9 ''test1'') = Inl e" by blast
  then have "zero_weights_condition sdk = Inl e" by (simp add: zero_weights_condition_def)
  with e show "\<exists>e. NeutrosophicJudgment sdk (canonical_input 0.9 0.1 0.9 ''test1'') = Inl e
            \<and> zero_weights_condition sdk = Inl e" by blast
  from e have r: "(\<exists>e. NeutrosophicJudgment sdk (canonical_input 0.9 0.1 0.9 ''test1'') = Inl e)
      \<or> (\<exists>e. NeutrosophicJudgment sdk (canonical_input 0.8 0.2 0.8 ''test2'') = Inl e)"
    by blast
  from zero_weights_rejected [OF r, of c]
  show "status (last (details (tvv_zero_weights_probe sdk c))) = FAIL"
    and "passed (tvv_zero_weights_probe sdk c) = passed c"
    and "total (tvv_zero_weights_probe sdk c) = total c + 1"
    by simp_all
qed

theorem zero_weights_probe_fails_when_inputs_rejected_witness:
  "is_valid_judgment (plain_object 0.9 0.1 0.9) = Inr False
   \<and> is_valid_judgment (plain_object 0.8 0.2 0.8) = Inr False
   \<and> NeutrosophicJudgment reference_sdk (canonical_input 0.9 0.1 0.9 ''test1'')
     = Inl (Exn OtherException ''T+I+F exceeds 1.0'')
   \<and> tvv_zero_weights_probe reference_sdk empty_category
     = \<lparr>passed = 0, total = 1,
        details = [\<lparr>test = ''zero_weights_fallback'', status = FAIL,
                    message = ''Error: T+I+F exceeds 1.0''\<rparr>]\<rparr>
   \<and> status (last (details (tvv_zero_weights_probe reference_sdk empty_category))) = FAIL
   \<and> NeutrosophicJudgment picky_sdk (canonical_input 0.9 0.1 0.9 ''test1'')
     = Inr (plain_object 0.9 0.1 0.9)
   \<and> NeutrosophicJudgment picky_sdk (canonical_input 0.8 0.2 0.8 ''test2'')
     = Inl (Exn OtherException ''T is too low'')
   \<and> tvv_zero_weights_probe picky_sdk empty_category
     = \<lparr>passed = 0, total = 1,
        details = [\<lparr>test = ''zero_weights_fallback'', status = FAIL,
                    message = ''Error: T is too low''\<rparr>]\<rparr>
   \<and> passed (tvv_zero_weights_probe picky_sdk empty_category) = 0
   \<and> NeutrosophicJudgment fallback_sdk (canonical_input 0.8 0.2 0.8 ''test2'')
     = Inr (plain_object 0.8 0.2 0.8)
   \<and> tvv_zero_weights_probe fallback_sdk empty_category
     = \<lparr>passed = 1, total = 1,
        details = [\<lparr>test = ''zero_weights_fallback'', status = PASS,
                    message = ''Zero weights fallback works correctly''\<rparr>]\<rparr>"
proof -
  note ref = zero_weights_probe_fails_when_inputs_rejected [of reference_sdk empty_category]
  note picky = zero_weights_probe_fails_when_inputs_rejected [of picky_sdk empty_category]
  note fallback = zero_weights_probe_fails_when_inputs_rejected [of fallback_sdk empty_category]
  have v1: "is_valid_judgment (plain_object 0.9 0.1 0.9) = Inr False"
    by (rule ref [THEN conjunct1, THEN spec, THEN mp]) (simp add: plain_object_reads)
  have v2: "is_valid_judgment (plain_object 0.8 0.2 0.8) = Inr False"
    by (rule ref [THEN conjunct2, THEN conjunct1, THEN spec, THEN mp])
       (simp add: plain_object_reads)
  have r1: "NeutrosophicJudgment reference_sdk (canonical_input 0.9 0.1 0.9 ''test1'')
     = Inl (Exn OtherException ''T+I+F exceeds 1.0'')"
    by (simp add: candidate_defs float_eval)
  have r2: "tvv_zero_weights_probe reference_sdk empty_category
     = \<lparr>passed = 0, total = 1,
        details = [\<lparr>test = ''zero_weights_fallback'', status = FAIL,
                    message = ''Error: T+I+F exceeds 1.0''\<rparr>]\<rparr>"
    using ref [THEN conjunct2, THEN conjunct2, THEN conjunct2, THEN conjunct2, THEN conjunct1,
      THEN spec, THEN mp, OF r1]
    by (simp add: category_defs)
  have h: "\<forall>inp. \<not> components_valid (inp_T inp) (inp_I inp) (inp_F inp)
            \<longrightarrow> (\<exists>e. NeutrosophicJudgment reference_sdk inp = Inl e)"
    by (simp add: make_sdk_def reference_sdk_def checking_ctor_def)
  have r3: "status (last (details (tvv_zero_weights_probe reference_sdk empty_category))) = FAIL"
    using ref [THEN conjunct2, THEN conjunct2, THEN conjunct2, THEN conjunct2, THEN conjunct2,
      THEN conjunct2, THEN conjunct2, THEN conjunct2, THEN mp, OF h]
    by simp
  have p1: "NeutrosophicJudgment picky_sdk (canonical_input 0.9 0.1 0.9 ''test1'')
     = Inr (plain_object 0.9 0.1 0.9)"
    by (simp add: candidate_defs float_eval)
  have p2: "NeutrosophicJudgment picky_sdk (canonical_input 0.8 0.2 0.8 ''test2'')
     = Inl (Exn OtherException ''T is too low'')"
    by (simp add: candidate_defs float_eval)
  have p3: "tvv_zero_weights_probe picky_sdk empty_category
     = \<lparr>passed = 0, total = 1,
        details = [\<lparr>test = ''zero_weights_fallback'', status = FAIL,
                    message = ''Error: T is too low''\<rparr>]\<rparr>"
    using picky [THEN conjunct2, THEN conjunct2, THEN conjunct2, THEN conjunct2, THEN conjunct2,
      THEN conjunct1, THEN spec, THEN spec, THEN mp, OF conjI, OF p1 p2]
    by (simp add: category_defs)
  have p4: "(\<exists>e. NeutrosophicJudgment picky_sdk (canonical_input 0.9 0.1 0.9 ''test1'') = Inl e)
      \<or> (\<exists>e. NeutrosophicJudgment picky_sdk (canonical_input 0.8 0.2 0.8 ''test2'') = Inl e)"
    using p2 by simp
  have p5: "passed (tvv_zero_weights_probe picky_sdk empty_category) = 0"
    using picky [THEN conjunct2, THEN conjunct2, THEN conjunct2, THEN conjunct2, THEN conjunct2,
      THEN conjunct2, THEN conjunct2, THEN conjunct1, THEN mp, OF p4]
    by (simp add: empty_category_def)
  have f1: "NeutrosophicJudgment fallback_sdk (canonical_input 0.9 0.1 0.9 ''test1'')
     = Inr (plain_object 0.9 0.1 0.9)"
    by (simp add: candidate_defs)
  have f2: "NeutrosophicJudgment fallback_sdk (canonical_input 0.8 0.2 0.8 ''test2'')
     = Inr (plain_object 0.8 0.2 0.8)"
    by (simp add: candidate_defs)
  have f4: "is_valid_judgment (plain_object 0 0 0) = Inr True"
    by (simp add: is_valid_plain_object float_eval)
  have f5: "tvv_zero_weights_probe fallback_sdk empty_category
     = \<lparr>passed = 1, total = 1,
        details = [\<lparr>test = ''zero_weights_fallback'', status = PASS,
                    message = ''Zero weights fallback works correctly''\<rparr>]\<rparr>"
    using fallback [THEN conjunct2, THEN conjunct2, THEN conjunct2, THEN conjunct2,
      THEN conjunct2, THEN conjunct2, THEN conjunct1, THEN spec, THEN spec, THEN mp,
      OF conjI, OF f1 f2]
    by (simp add: make_sdk_def fallback_sdk_def f4 category_defs)
  from v1 v2 r1 r2 r3 p1 p2 p3 p5 f2 f5 show ?thesis by (intro conjI)
qed

subsection \<open>Score and exit code of validate\_vectors.py\<close>




lemma load_fixtures_with:
  "load_test_vectors (fixtures_with vs) = Inr \<lparr>tv_judgments = Some vs, tv_fusion = None\<rparr>"
  by (simp add: load_test_vectors_def read_test_vectors_def fixtures_with_def)




subsection \<open>Judgment creation\<close>

text \<open>The loop bodies of the two harnesses, with the four outcomes side by side.\<close>

lemma tvv_judgment_creation_case_verdict:
  "tvv_judgment_creation_case sdk c tc =
     (case NeutrosophicJudgment sdk (input tc) of
        Inr judgment \<Rightarrow>
          if expected_valid tc
          then append_detail (name tc) PASS ''Valid judgment created successfully''
                 (incr_passed (incr_total c))
          else append_detail (name tc) FAIL ''Should have failed but didn't'' (incr_total c)
      | Inl e \<Rightarrow>
          if expected_valid tc
          then append_detail (name tc) FAIL (''Unexpected error: '' @ str_of e) (incr_total c)
          else if (\<exists>s. expected_error tc = Some s \<and> s \<noteq> [] \<and> sublist s (str_of e))
          then append_detail (name tc) PASS (''Failed as expected: '' @ str_of e)
                 (incr_passed (incr_total c))
          else incr_passed (append_detail (name tc) WARN
                  (''Failed as expected but wrong error: '' @ str_of e) (incr_total c)))"
  by (auto simp: tvv_judgment_creation_case_def Let_def split: sum.splits option.splits)

lemma cv_judgment_creation_case_verdict:
  "cv_judgment_creation_case sdk st tc =
     (case NeutrosophicJudgment sdk (input tc) of
        Inr judgment \<Rightarrow>
          if expected_valid tc
          then Inr (add_passed 1 (print_line PASS (name tc) (add_total 1 st)))
          else Inr (print_line FAIL (name tc @ '' - Should have failed but didn't'')
                      (add_total 1 st))
      | Inl e \<Rightarrow>
          if expected_valid tc
          then Inr (print_line FAIL (name tc @ '' - Unexpected error: '' @ str_of e)
                      (add_total 1 st))
          else (case expected_error tc of
                  None \<Rightarrow> Inl (key_error ''expected_error'')
                | Some s \<Rightarrow>
                    if s \<noteq> [] \<and> sublist s (str_of e)
                    then Inr (add_passed 1 (print_line PASS (name tc) (add_total 1 st)))
                    else Inr (add_passed 1 (print_line WARN
                           (name tc @ '' - Failed as expected but wrong error: '' @ str_of e)
                           (add_total 1 st)))))"
  by (auto simp: cv_judgment_creation_case_def Let_def split: sum.splits option.splits)

text \<open>
  In validate\_vectors.py every vector gets exactly one verdict: \<open>PASS\<close> when construction
  succeeds and the vector is expected valid, \<open>FAIL\<close> when it succeeds and the vector is
  expected invalid, \<open>FAIL\<close> when it raises and the vector is expected valid.
\<close>

lemma tvv_judgment_creation_verdicts:
  "(\<forall>j. NeutrosophicJudgment sdk (input tc) = Inr j \<and> expected_valid tc \<longrightarrow>
       map status (details (tvv_judgment_creation_case sdk c tc)) = map status (details c) @ [PASS])
 \<and> (\<forall>j. NeutrosophicJudgment sdk (input tc) = Inr j \<and> \<not> expected_valid tc \<longrightarrow>
       map status (details (tvv_judgment_creation_case sdk c tc)) = map status (details c) @ [FAIL])
 \<and> (\<forall>e. NeutrosophicJudgment sdk (input tc) = Inl e \<and> expected_valid tc \<longrightarrow>
       map status (details (tvv_judgment_creation_case sdk c tc)) = map status (details c) @ [FAIL])
 \<and> (\<exists>v m. details (tvv_judgment_creation_case sdk c tc)
            = details c @ [\<lparr>test = name tc, status = v, message = m\<rparr>])
 \<and> total (tvv_judgment_creation_case sdk c tc) = total c + 1"
  by (auto simp: tvv_judgment_creation_case_verdict category_defs split: sum.splits)

text \<open>
  In validate\_vectors.py a vector expected invalid whose construction raises gets \<open>PASS\<close>
  when \<^verbatim>\<open>expected_error\<close> is a non-empty substring of the message and \<open>WARN\<close> otherwise
  (also when the key is absent or the string empty); both count as passed.
\<close>

lemma tvv_expected_failure_verdict:
  assumes "NeutrosophicJudgment sdk (input tc) = Inl e" and "\<not> expected_valid tc"
  shows "details (tvv_judgment_creation_case sdk c tc)
       = details c @
         [if (\<exists>s. expected_error tc = Some s \<and> s \<noteq> [] \<and> sublist s (str_of e))
          then \<lparr>test = name tc, status = PASS, message = ''Failed as expected: '' @ str_of e\<rparr>
          else \<lparr>test = name tc, status = WARN,
                message = ''Failed as expected but wrong error: '' @ str_of e\<rparr>]
     \<and> passed (tvv_judgment_creation_case sdk c tc) = passed c + 1
     \<and> total (tvv_judgment_creation_case sdk c tc) = total c + 1"
  using assms by (simp add: tvv_judgment_creation_case_verdict category_defs)

text \<open>
  In check\_conformance.py the same four outcomes hold as long as the vector carries the
  key \<^verbatim>\<open>expected_error\<close>, or construction succeeds, or the vector is expected valid.
\<close>

lemma cv_judgment_creation_case_returns:
  assumes "expected_error tc \<noteq> None \<or> expected_valid tc
           \<or> (\<exists>j. NeutrosophicJudgment sdk (input tc) = Inr j)"
  shows "\<exists>st'. cv_judgment_creation_case sdk st tc = Inr st'
           \<and> cv_total st' = cv_total st + 1
           \<and> length (printed st') = length (printed st) + 1"
  using assms
  by (auto simp: cv_judgment_creation_case_verdict tally_defs split: sum.splits)

text \<open>
  Claim C1, at the input where check\_conformance.py departs from it. The vector
  \<open>no_expectation\<close> is expected invalid and has no key \<^verbatim>\<open>expected_error\<close>; the reference
  candidate rejects it. The probe of check\_conformance.py reaches no verdict: the
  handler raises \<open>KeyError\<close>.
\<close>

theorem cv_missing_expected_error_aborts:
  "cv_judgment_creation_case reference_sdk empty_tally no_expectation
     = Inl (key_error ''expected_error'')"
  by (simp add: cv_judgment_creation_case_verdict candidate_defs vector_defs float_eval)

text \<open>
  Claim C2, at the same input. The run of check\_conformance.py aborts with the
  \<open>KeyError\<close>, where validate\_vectors.py records \<open>WARN\<close> for the vector and goes on.
\<close>

theorem cv_missing_expected_error_aborts_run:
  "expected_error no_expectation = None
   \<and> NeutrosophicJudgment reference_sdk (input no_expectation)
       = Inl (Exn OtherException ''T+I+F exceeds 1.0'')
   \<and> cv_main (fixtures_with [basic_valid, no_expectation]) (Inr reference_sdk)
       = Aborted (key_error ''expected_error'')
   \<and> map status (details (judgment_creation
        (tvv_validate_judgment_creation reference_sdk [basic_valid, no_expectation]
           initial_results))) = [PASS, WARN]"
  by (simp add: cv_main_def load_fixtures_with cv_run_validation_def
      cv_validate_judgment_creation_def cv_judgment_creation_case_verdict
      tvv_validate_judgment_creation_def tvv_judgment_creation_case_verdict
      candidate_defs vector_defs float_eval initial_results_def category_defs)

subsection \<open>Fusion operators\<close>

text \<open>
  \<^verbatim>\<open>TestVectorValidator.validate_fusion_operators\<close> raises exactly when one of its two
  constructions raises; the operators themselves cannot make it raise.
\<close>

lemma tvv_validate_fusion_operators_raises_iff:
  "tvv_validate_fusion_operators sdk r = Inl e
   \<longleftrightarrow> (NeutrosophicJudgment sdk (canonical_input 0.8 0.2 0.0 ''test1'') = Inl e
        \<or> (\<exists>j1. NeutrosophicJudgment sdk (canonical_input 0.8 0.2 0.0 ''test1'') = Inr j1
                \<and> NeutrosophicJudgment sdk (canonical_input 0.6 0.3 0.1 ''test2'') = Inl e))"
  by (auto simp: tvv_validate_fusion_operators_def Let_def split: sum.splits)

text \<open>
  \<^verbatim>\<open>ConformanceValidator.validate_fusion_operators\<close> contains the same failure: three
  tests counted, none passed, three \<open>FAIL\<close> lines.
\<close>

lemma cv_fusion_construction_error_contained:
  "cv_validate_fusion_operators raising_sdk
     = \<lparr>cv_passed = 0, cv_total = 3,
        printed = [(FAIL, ''Conflict-aware weighted average - Error: not implemented''),
                   (FAIL, ''Optimistic fusion - Error: '' @ str_of (unbound_local ''judgments'')),
                   (FAIL, ''Pessimistic fusion - Error: '' @ str_of (unbound_local ''judgments''))]\<rparr>"
  by (simp add: cv_validate_fusion_operators_def cv_fusion_block_def candidate_defs tally_defs
      Let_def)

text \<open>
  Claim C4, at the input where validate\_vectors.py departs from it. With a candidate
  whose constructor raises, the exception leaves \<open>validate_fusion_operators\<close> and
  \<open>run_validation\<close>: the run is aborted, no fusion test is recorded, and the process exits
  with status 1 without a score.
\<close>

theorem tvv_fusion_construction_error_propagates:
  "NeutrosophicJudgment raising_sdk (canonical_input 0.8 0.2 0.0 ''test1'')
     = Inl (Exn OtherException ''not implemented'')
   \<and> tvv_validate_fusion_operators raising_sdk initial_results
     = Inl (Exn OtherException ''not implemented'')
   \<and> tvv_run_validation (fixtures_with []) (Inr raising_sdk)
     = (Aborted (Exn OtherException ''not implemented''), initial_results)
   \<and> tvv_main (fixtures_with []) (Inr raising_sdk) = 1"
  by (simp add: tvv_main_def exit_code_def tvv_run_validation_def load_fixtures_with
      tvv_validate_fusion_operators_def tvv_validate_judgment_creation_def candidate_defs)

subsection \<open>Provenance chain\<close>

text \<open>
  Claim C3, as the code has it. After a successful construction and length check, the
  immutability probe prints \<open>PASS\<close> and counts a pass when the append raises
  \<open>AttributeError\<close> or \<open>TypeError\<close>; it prints \<open>FAIL\<close> and counts nothing when the append
  returns; and when the append raises any other exception no \<open>PASS\<close> is printed for the
  probe and no pass is counted.
\<close>

theorem immutability_probe_verdict:
  assumes "NeutrosophicJudgment sdk (canonical_input 0.8 0.2 0.0 ''test'') = Inr judgment"
    and "provenance_len judgment = Inr n"
  shows "(\<forall>e. provenance_append judgment [(''source_id'', ''hack'')] = Inl e
            \<and> (cls e = AttributeError \<or> cls e = TypeError) \<longrightarrow>
          last (printed (cv_validate_provenance_chain sdk))
            = (PASS, ''Provenance chain immutability'')
          \<and> cv_passed (cv_validate_provenance_chain sdk) = (if n = 1 then 2 else 1)
          \<and> cv_total (cv_validate_provenance_chain sdk) = 2)
      \<and> (provenance_append judgment [(''source_id'', ''hack'')] = Inr () \<longrightarrow>
          last (printed (cv_validate_provenance_chain sdk))
            = (FAIL, ''Provenance chain immutability - Should be immutable'')
          \<and> cv_passed (cv_validate_provenance_chain sdk) = (if n = 1 then 1 else 0)
          \<and> cv_total (cv_validate_provenance_chain sdk) = 2)
      \<and> (\<forall>e. provenance_append judgment [(''source_id'', ''hack'')] = Inl e
            \<and> cls e \<noteq> AttributeError \<and> cls e \<noteq> TypeError \<longrightarrow>
          (PASS, ''Provenance chain immutability'')
              \<notin> set (printed (cv_validate_provenance_chain sdk))
          \<and> cv_passed (cv_validate_provenance_chain sdk) = (if n = 1 then 1 else 0))"
  using assms
  by (auto simp: cv_validate_provenance_chain_def provenance_outer_handler_def tally_defs Let_def)

theorem immutability_probe_verdict_witness:
  "last (printed (cv_validate_provenance_chain reference_sdk))
      = (PASS, ''Provenance chain immutability'')
   \<and> cv_passed (cv_validate_provenance_chain reference_sdk) = 2
   \<and> last (printed (cv_validate_provenance_chain mutable_sdk))
      = (FAIL, ''Provenance chain immutability - Should be immutable'')
   \<and> cv_passed (cv_validate_provenance_chain mutable_sdk) = 1"
proof -
  let ?inp = "canonical_input 0.8 0.2 0.0 ''test''"
  let ?j = "plain_object 0.8 0.2 0.0"
  let ?m = "?j\<lparr>provenance_append := (\<lambda>entry. Inr ())\<rparr>"
  have c1: "NeutrosophicJudgment reference_sdk ?inp = Inr ?j"
    by (simp add: candidate_defs float_eval)
  have l1: "provenance_len ?j = Inr 1" by (simp add: plain_object_reads)
  have a1: "provenance_append ?j [(''source_id'', ''hack'')]
              = Inl (Exn AttributeError ''tuple has no attribute append'')"
    by (simp add: plain_object_reads)
  have c2: "NeutrosophicJudgment mutable_sdk ?inp = Inr ?m"
    by (simp add: candidate_defs)
  have l2: "provenance_len ?m = Inr 1" by (simp add: plain_object_reads)
  have a2: "provenance_append ?m [(''source_id'', ''hack'')] = Inr ()" by simp
  from immutability_probe_verdict [OF c1 l1] a1
  have "last (printed (cv_validate_provenance_chain reference_sdk))
          = (PASS, ''Provenance chain immutability'')
        \<and> cv_passed (cv_validate_provenance_chain reference_sdk) = 2"
    by simp
  moreover from immutability_probe_verdict [OF c2 l2] a2
  have "last (printed (cv_validate_provenance_chain mutable_sdk))
          = (FAIL, ''Provenance chain immutability - Should be immutable'')
        \<and> cv_passed (cv_validate_provenance_chain mutable_sdk) = 1"
    by simp
  ultimately show ?thesis by simp
qed

text \<open>
  Claim C3 as stated fails: the provenance chain of \<open>frozen_sdk\<close> refuses the append with
  an exception of its own class; the only \<open>PASS\<close> is that of the creation probe and the
  category reports an error.
\<close>

theorem immutability_probe_counterexample:
  "NeutrosophicJudgment frozen_sdk (canonical_input 0.8 0.2 0.0 ''test'')
     = Inr ((plain_object 0.8 0.2 0.0)
              \<lparr>provenance_append := (\<lambda>entry. Inl (Exn OtherException ''chain is frozen''))\<rparr>)
   \<and> cv_validate_provenance_chain frozen_sdk
     = \<lparr>cv_passed = 1, cv_total = 3,
        printed = [(PASS, ''Provenance chain creation''),
                   (FAIL, ''Provenance chain tests - Error: chain is frozen'')]\<rparr>"
  by (simp add: cv_validate_provenance_chain_def provenance_outer_handler_def tally_defs
      candidate_defs float_object_reads Let_def)

text \<open>
  Claim C10. When construction and the length check succeed and the append raises an
  exception that is neither \<open>AttributeError\<close> nor \<open>TypeError\<close>, the category returns
  \<open>total = 3\<close> for its two probes: the outer handler adds 2 after the first probe added 1.
\<close>

theorem provenance_chain_total_is_three:
  assumes "NeutrosophicJudgment sdk (canonical_input 0.8 0.2 0.0 ''test'') = Inr judgment"
    and "provenance_len judgment = Inr n"
    and "provenance_append judgment [(''source_id'', ''hack'')] = Inl e"
    and "cls e \<noteq> AttributeError" and "cls e \<noteq> TypeError"
  shows "cv_total (cv_validate_provenance_chain sdk) = 3"
  using assms
  by (simp add: cv_validate_provenance_chain_def provenance_outer_handler_def tally_defs Let_def)

theorem provenance_chain_total_is_three_witness:
  "NeutrosophicJudgment frozen_sdk (canonical_input 0.8 0.2 0.0 ''test'')
     = frozen_ctor (canonical_input 0.8 0.2 0.0 ''test'')
   \<and> cv_total (cv_validate_provenance_chain frozen_sdk) = 3"
proof -
  let ?j = "(plain_object 0.8 0.2 0.0)
              \<lparr>provenance_append := (\<lambda>entry. Inl (Exn OtherException ''chain is frozen''))\<rparr>"
  have c: "NeutrosophicJudgment frozen_sdk (canonical_input 0.8 0.2 0.0 ''test'') = Inr ?j"
    by (simp add: candidate_defs)
  have l: "provenance_len ?j = Inr 1" by (simp add: plain_object_reads)
  have a: "provenance_append ?j [(''source_id'', ''hack'')]
             = Inl (Exn OtherException ''chain is frozen'')" by simp
  have "cv_total (cv_validate_provenance_chain frozen_sdk) = 3"
    by (rule provenance_chain_total_is_three [OF c l a]) simp_all
  moreover have "NeutrosophicJudgment frozen_sdk (canonical_input 0.8 0.2 0.0 ''test'')
     = frozen_ctor (canonical_input 0.8 0.2 0.0 ''test'')" by (simp add: candidate_defs)
  ultimately show ?thesis by simp
qed

subsection \<open>Fixture loading\<close>















end
